theory Spec2Isabelle
  imports Main
begin

section \<open>Social media reply service: model of the request pipeline\<close>

text \<open>
  The service consists of \<^verbatim>\<open>models.py\<close> (data shapes), \<^verbatim>\<open>llm_handler.py\<close>
  (prompt construction and reply generation), \<^verbatim>\<open>database.py\<close> (best-effort insert) and
  \<^verbatim>\<open>main.py\<close> (the HTTP endpoints). Every function is embedded as a HOL function
  of the same name. The process-wide globals (\<^verbatim>\<open>genai_configured\<close>, \<^verbatim>\<open>model\<close>,
  \<^verbatim>\<open>reply_collection\<close>) and the clock become fields of an explicit environment; a
  Python \<^verbatim>\<open>raise\<close> becomes the left injection of a sum; every call that leaves the
  process (the generative backend, the document store) is recorded in a trace of events.
  Calls to \<^verbatim>\<open>logger\<close> are left out: they do not influence control flow or results.
\<close>

subsection \<open>Python strings\<close>

text \<open>
  A Python \<^verbatim>\<open>str\<close> is a sequence of Unicode code points, modelled as a list of
  naturals. \<open>lit\<close> turns an ASCII literal into that representation.
\<close>

type_synonym pystr = "nat list"

definition lit :: "string \<Rightarrow> pystr" where
  "lit s = map of_char s"

text \<open>
  \<^verbatim>\<open>str.isspace\<close> on one code point: the code points for which CPython's
  \<^verbatim>\<open>str.strip()\<close> without argument removes a character.
\<close>

definition isspace :: "nat \<Rightarrow> bool" where
  "isspace c =
     ((9 \<le> c \<and> c \<le> 13) \<or> (28 \<le> c \<and> c \<le> 32) \<or> c = 133 \<or> c = 160 \<or> c = 5760 \<or>
      (8192 \<le> c \<and> c \<le> 8202) \<or> c = 8232 \<or> c = 8233 \<or> c = 8239 \<or> c = 8287 \<or>
      c = 12288)"

definition lstrip :: "pystr \<Rightarrow> pystr" where
  "lstrip s = dropWhile isspace s"

definition rstrip :: "pystr \<Rightarrow> pystr" where
  "rstrip s = rev (dropWhile isspace (rev s))"

definition strip :: "pystr \<Rightarrow> pystr" where
  "strip s = rstrip (lstrip s)"

text \<open>\<^verbatim>\<open>s.startswith(p)\<close> and \<^verbatim>\<open>s.endswith(p)\<close>.\<close>

definition startswith :: "pystr \<Rightarrow> pystr \<Rightarrow> bool" where
  "startswith s p = (take (length p) s = p)"

definition endswith :: "pystr \<Rightarrow> pystr \<Rightarrow> bool" where
  "endswith s p = (length p \<le> length s \<and> drop (length s - length p) s = p)"

text \<open>
  The slice \<^verbatim>\<open>s[1:-1]\<close>: the start index 1 and the stop index \<open>len(s) - 1\<close>
  are clipped to the string, and an empty range gives the empty string.
\<close>

definition slice_1_m1 :: "pystr \<Rightarrow> pystr" where
  "slice_1_m1 s =
     (let n = length s;
          start = min 1 n;
          stop = (if n < 1 then 0 else n - 1)
      in take (stop - start) (drop start s))"

text \<open>The two quote characters of the post-processing step.\<close>

definition dquote :: nat where
  "dquote = 34"

definition squote :: nat where
  "squote = 39"

subsection \<open>Data model (\<^verbatim>\<open>models.py\<close>)\<close>

record PostData =
  platform :: pystr
  post_text :: pystr

record ReplyResponse =
  platform :: pystr
  post_text :: pystr
  generated_reply :: pystr

text \<open>
  \<^verbatim>\<open>StoredReply\<close> extends \<^verbatim>\<open>ReplyResponse\<close> by the creation time and the
  optional identifier (the field \<^verbatim>\<open>id\<close>, alias \<^verbatim>\<open>_id\<close>).
\<close>

record StoredReply = ReplyResponse +
  timestamp :: nat
  reply_id :: "pystr option"

record ErrorResponse =
  detail :: pystr

subsection \<open>Exceptions, JSON values, HTTP responses\<close>

text \<open>
  The instances of Python's \<^verbatim>\<open>Exception\<close> that occur: the framework's
  \<^verbatim>\<open>HTTPException(status_code, detail)\<close>, and any other error, which carries the text
  that \<^verbatim>\<open>str(e)\<close> gives for it.
\<close>

datatype exception =
    HTTPException nat pystr
  | Error pystr

datatype json =
    JNull
  | JBool bool
  | JNum int
  | JStr pystr
  | JArr "json list"
  | JObj "(pystr \<times> json) list"

text \<open>
  What the framework sends: a JSON response with a status code, its own answer to a
  request body that fails validation (status 422), or its answer to an exception that is
  not an \<^verbatim>\<open>HTTPException\<close> (status 500).
\<close>

datatype http_response =
    JSONResponse nat json
  | RequestValidationError
  | InternalServerError

fun status_code :: "http_response \<Rightarrow> nat" where
  "status_code (JSONResponse s b) = s"
| "status_code RequestValidationError = 422"
| "status_code InternalServerError = 500"

definition HTTP_200_OK :: nat where
  "HTTP_200_OK = 200"

definition HTTP_500_INTERNAL_SERVER_ERROR :: nat where
  "HTTP_500_INTERNAL_SERVER_ERROR = 500"

definition HTTP_503_SERVICE_UNAVAILABLE :: nat where
  "HTTP_503_SERVICE_UNAVAILABLE = 503"

subsection \<open>External collaborators and the environment\<close>

text \<open>
  The backend's response object. \<^verbatim>\<open>response.parts\<close> and \<^verbatim>\<open>response.text\<close> are
  accessors of the client library that may themselves raise.
\<close>

datatype part = Part pystr

record GenerateContentResponse =
  parts :: "exception + part list"
  text' :: "exception + pystr"

datatype docval =
    DNone
  | DStr pystr
  | DDatetime nat

type_synonym document = "(pystr \<times> docval) list"

datatype object_id = ObjectId pystr

fun str_object_id :: "object_id \<Rightarrow> pystr" where
  "str_object_id (ObjectId s) = s"

text \<open>
  A collection handle: \<^verbatim>\<open>insert_one\<close> either raises or returns the identifier the
  store assigned.
\<close>

record AsyncIOMotorCollection =
  insert_one :: "document \<Rightarrow> exception + object_id"

text \<open>
  The environment of a request: the module globals of \<^verbatim>\<open>llm_handler.py\<close> and
  \<^verbatim>\<open>database.py\<close> after startup, the backend's behaviour on a prompt
  (\<^verbatim>\<open>model.generate_content_async\<close>), the clock read by the default factory of
  \<^verbatim>\<open>timestamp\<close>, and the text the framework's \<^verbatim>\<open>HTTPException\<close> gives under
  \<^verbatim>\<open>str\<close>.
\<close>

record env =
  genai_configured :: bool
  generate_content_async :: "pystr \<Rightarrow> exception + GenerateContentResponse"
  reply_collection :: "AsyncIOMotorCollection option"
  utcnow :: nat
  str_http_exception :: "nat \<Rightarrow> pystr \<Rightarrow> pystr"

datatype event =
    GenerateContent pystr
  | InsertOne document

fun str_exception :: "env \<Rightarrow> exception \<Rightarrow> pystr" where
  "str_exception E (HTTPException s d) = str_http_exception E s d"
| "str_exception E (Error m) = m"

subsection \<open>Prompt construction (\<^verbatim>\<open>llm_handler.create_prompt\<close>)\<close>

definition platform_guidance :: "(pystr \<times> pystr) list" where
  \<open>platform_guidance =
     [(lit ''Twitter'',
       lit ''Keep it concise, possibly witty or conversational. Hashtags are common.''),
      (lit ''LinkedIn'',
       lit ''Maintain a professional but engaging tone. Focus on insights, encouragement, or relevant questions.''),
      (lit ''Instagram'',
       lit ''Be visually oriented (even if text-only reply), friendly, and often use emojis. Keep it relatively short and positive.''),
      (lit ''Generic'',
       lit ''Be authentic, engaging, and relevant to the post.'')]\<close>

text \<open>\<^verbatim>\<open>d.get(k, default)\<close> on a dictionary given by its items.\<close>

definition dict_get :: "('k \<times> 'v) list \<Rightarrow> 'k \<Rightarrow> 'v \<Rightarrow> 'v" where
  "dict_get d k dflt = (case map_of d k of None \<Rightarrow> dflt | Some v \<Rightarrow> v)"

text \<open>The literal pieces of the prompt template, between the interpolated fields.\<close>

definition prompt_part1 :: pystr where
  \<open>prompt_part1 = lit
    (''\<newline>'' @
     ''    You are an expert social media user tasked with writing replies.\<newline>'' @
     ''    Your goal is to generate a reply that is indistinguishable from one written by a real, thoughtful human.\<newline>'' @
     ''\<newline>'' @
     ''    **Context:**\<newline>'' @
     ''    - **Platform:** '')\<close>

definition prompt_part2 :: pystr where
  \<open>prompt_part2 = lit
    (''\<newline>'' @
     ''    - **Original Post:** "'')\<close>

definition prompt_part3 :: pystr where
  \<open>prompt_part3 = lit
    (''"\<newline>'' @
     ''\<newline>'' @
     ''    **Instructions:**\<newline>'' @
     ''    1.  **Analyze:** Understand the tone, style, intent (e.g., sharing news, asking question, expressing opinion), and context of the original post.\<newline>'' @
     ''    2.  **Platform Nuance:** Consider the typical communication style for '')\<close>

definition prompt_part4 :: pystr where
  \<open>prompt_part4 = lit
    (''. '')\<close>

definition prompt_part5 :: pystr where
  \<open>prompt_part5 = lit
    (''\<newline>'' @
     ''    3.  **Generate Reply:** Write a reply that:\<newline>'' @
     ''        - Is authentic and sounds like a real person genuinely engaging with the post.\<newline>'' @
     ''        - Directly relates to the content of the original post.\<newline>'' @
     ''        - Matches the likely tone and context (unless a contrasting tone is clearly appropriate and human-like, e.g., gentle disagreement).\<newline>'' @
     ''        - Is concise and easy to read.\<newline>'' @
     ''        - **Crucially, avoids AI giveaways:** Do NOT use overly formal language, generic phrases ("That's interesting!", "Great post!"), repetitive sentence structures, or language that feels unnaturally objective or detached. Do not sound like a chatbot or assistant.\<newline>'' @
     ''        - If appropriate for the platform and context, consider adding relevant emojis or hashtags, but don't overdo it.\<newline>'' @
     ''    4.  **Output ONLY the reply text.** Do not include any preamble, explanation, or quotation marks around the reply itself.\<newline>'' @
     ''\<newline>'' @
     ''    **Example Scenario (Internal Thought Process - DO NOT replicate in output):**\<newline>'' @
     ''    - *If Post is:* "Just finished a marathon! So tired but proud. #running" (on Instagram)\<newline>'' @
     ''    - *Your thought:* "Okay, Instagram post, celebratory and personal. Reply should be encouraging, maybe use an emoji. Keep it short."\<newline>'' @
     ''    - *Good Reply:* "Wow, congratulations! That's amazing! Rest up!"\<newline>'' @
     ''    - *Bad Reply (AI giveaway):* "Acknowledged. Completing a marathon is a significant achievement demonstrating physical endurance. Well done."\<newline>'' @
     ''\<newline>'' @
     ''    **Generate the human-like reply now based on the provided Platform and Original Post:**\<newline>'' @
     ''    '')\<close>

definition create_prompt :: "pystr \<Rightarrow> pystr \<Rightarrow> pystr" where
  "create_prompt plat post =
     (let guidance = dict_get platform_guidance plat
                       (dict_get platform_guidance (lit ''Generic'') []);
          prompt = prompt_part1 @ plat @ prompt_part2 @ post @ prompt_part3 @
                   plat @ prompt_part4 @ guidance @ prompt_part5
      in strip prompt)"

subsection \<open>Reply generation (\<^verbatim>\<open>llm_handler.generate_reply\<close>)\<close>

text \<open>
  The post-processing of the backend's text inside \<^verbatim>\<open>generate_reply\<close>:
  \<^verbatim>\<open>response.text.strip()\<close>, then the \<^verbatim>\<open>if\<close>/\<^verbatim>\<open>elif\<close> on the two quote characters.
\<close>

definition post_process :: "pystr \<Rightarrow> pystr" where
  "post_process raw =
     (let generated_text = strip raw
      in if startswith generated_text [dquote] \<and> endswith generated_text [dquote]
         then slice_1_m1 generated_text
         else if startswith generated_text [squote] \<and> endswith generated_text [squote]
         then slice_1_m1 generated_text
         else generated_text)"

text \<open>
  The body of the \<^verbatim>\<open>try\<close> block of \<^verbatim>\<open>generate_reply\<close>, once the backend has been
  called: \<open>Inl\<close> is an exception raised inside the block.
\<close>

definition read_response :: "exception + GenerateContentResponse \<Rightarrow> exception + pystr option" where
  "read_response called =
     (case called of
        Inl e \<Rightarrow> Inl e
      | Inr response \<Rightarrow>
          (case parts response of
             Inl e \<Rightarrow> Inl e
           | Inr ps \<Rightarrow>
               if ps \<noteq> [] then
                 (case text' response of
                    Inl e \<Rightarrow> Inl e
                  | Inr t \<Rightarrow> Inr (Some (post_process t)))
               else Inr None))"

definition generate_reply ::
  "env \<Rightarrow> pystr \<Rightarrow> pystr \<Rightarrow> (exception + pystr option) \<times> event list" where
  "generate_reply E plat post =
     (if \<not> genai_configured E then (Inr None, [])
      else
        let prompt = create_prompt plat post
        in (case read_response (generate_content_async E prompt) of
              Inl e \<Rightarrow> Inr None
            | Inr r \<Rightarrow> Inr r,
            [GenerateContent prompt]))"

definition is_llm_available :: "env \<Rightarrow> bool" where
  "is_llm_available E = genai_configured E"

subsection \<open>Persistence (\<^verbatim>\<open>database.py\<close>)\<close>

text \<open>
  \<^verbatim>\<open>reply_data.model_dump(by_alias=True, exclude_none=True)\<close>: the fields in declaration
  order, \<^verbatim>\<open>id\<close> under its alias, and no entry whose value is \<^verbatim>\<open>None\<close>.
\<close>

definition model_dump :: "StoredReply \<Rightarrow> document" where
  "model_dump r =
     filter (\<lambda>(k, v). v \<noteq> DNone)
       [(lit ''platform'', DStr (ReplyResponse.platform r)),
        (lit ''post_text'', DStr (ReplyResponse.post_text r)),
        (lit ''generated_reply'', DStr (generated_reply r)),
        (lit ''timestamp'', DDatetime (timestamp r)),
        (lit ''_id'', case reply_id r of None \<Rightarrow> DNone | Some i \<Rightarrow> DStr i)]"

text \<open>\<^verbatim>\<open>if 'id' in document and document['id'] is None: del document['id']\<close>\<close>

definition del_none_id :: "document \<Rightarrow> document" where
  "del_none_id document =
     (if map_of document (lit ''id'') = Some DNone
      then filter (\<lambda>(k, v). k \<noteq> lit ''id'') document
      else document)"

definition save_reply :: "env \<Rightarrow> StoredReply \<Rightarrow> (exception + pystr option) \<times> event list" where
  "save_reply E reply_data =
     (case reply_collection E of
        None \<Rightarrow> (Inr None, [])
      | Some coll \<Rightarrow>
          let document = del_none_id (model_dump reply_data)
          in (case insert_one coll document of
                Inl e \<Rightarrow> Inr None
              | Inr inserted_id \<Rightarrow> Inr (Some (str_object_id inserted_id)),
              [InsertOne document]))"

definition is_db_connected :: "env \<Rightarrow> bool" where
  "is_db_connected E = (reply_collection E \<noteq> None)"

subsection \<open>Endpoints (\<^verbatim>\<open>main.py\<close>)\<close>

definition check_services :: "env \<Rightarrow> exception + unit" where
  "check_services E =
     (if \<not> is_llm_available E
      then Inl (HTTPException HTTP_503_SERVICE_UNAVAILABLE
                  (lit ''LLM service is not configured or unavailable.''))
      else Inr ())"

text \<open>
  The handler \<^verbatim>\<open>create_reply\<close>, for any function in the place of the imported
  \<^verbatim>\<open>llm_generate_reply\<close>. The \<^verbatim>\<open>HTTPException\<close> raised for a \<^verbatim>\<open>None\<close> result is
  raised inside the \<^verbatim>\<open>try\<close> block, whose handler is \<^verbatim>\<open>except Exception as e\<close>.
\<close>

definition create_reply_with ::
  "(pystr \<Rightarrow> pystr \<Rightarrow> (exception + pystr option) \<times> event list) \<Rightarrow> env \<Rightarrow> PostData \<Rightarrow>
     (exception + ReplyResponse) \<times> event list" where
  "create_reply_with llm_generate_reply E post_data =
     (let (generated, ev1) =
            llm_generate_reply (PostData.platform post_data) (PostData.post_text post_data);
          tried =
            (case generated of
               Inl e \<Rightarrow> Inl e
             | Inr None \<Rightarrow>
                 Inl (HTTPException HTTP_500_INTERNAL_SERVER_ERROR
                        (lit ''Failed to generate reply using the language model.''))
             | Inr (Some generated_reply_text) \<Rightarrow> Inr generated_reply_text)
      in case tried of
           Inl e \<Rightarrow>
             (Inl (HTTPException HTTP_500_INTERNAL_SERVER_ERROR
                     (lit ''An unexpected error occurred during reply generation: '' @
                      str_exception E e)),
              ev1)
         | Inr generated_reply_text \<Rightarrow>
             let reply_to_store =
                   \<lparr>ReplyResponse.platform = PostData.platform post_data,
                    post_text = PostData.post_text post_data,
                    generated_reply = generated_reply_text,
                    timestamp = utcnow E,
                    reply_id = None\<rparr>;
                 (saved, ev2) =
                   (if is_db_connected E then save_reply E reply_to_store else (Inr None, []))
             in (case saved of
                   Inl e \<Rightarrow> (Inl e, ev1 @ ev2)
                 | Inr inserted_id \<Rightarrow>
                     (Inr \<lparr>ReplyResponse.platform = ReplyResponse.platform reply_to_store,
                           post_text = ReplyResponse.post_text reply_to_store,
                           generated_reply = generated_reply reply_to_store\<rparr>,
                      ev1 @ ev2)))"

definition create_reply :: "env \<Rightarrow> PostData \<Rightarrow> (exception + ReplyResponse) \<times> event list" where
  "create_reply E post_data = create_reply_with (generate_reply E) E post_data"

text \<open>
  Validation of the request body against \<^verbatim>\<open>PostData\<close>: the body is the parsed JSON
  value; both fields are required (\<^verbatim>\<open>Field(...)\<close>) and of type \<^verbatim>\<open>str\<close>, with no
  further constraint; other keys are ignored.
\<close>

definition validate_PostData :: "json \<Rightarrow> PostData option" where
  "validate_PostData body =
     (case body of
        JObj items \<Rightarrow>
          (case (map_of items (lit ''platform''), map_of items (lit ''post_text'')) of
             (Some (JStr p), Some (JStr t)) \<Rightarrow>
               Some \<lparr>PostData.platform = p, post_text = t\<rparr>
           | _ \<Rightarrow> None)
      | _ \<Rightarrow> None)"

text \<open>What the framework sends for a raised exception and for a returned model.\<close>

fun exception_response :: "exception \<Rightarrow> http_response" where
  "exception_response (HTTPException s d) = JSONResponse s (JObj [(lit ''detail'', JStr d)])"
| "exception_response (Error m) = InternalServerError"

definition reply_json :: "ReplyResponse \<Rightarrow> json" where
  "reply_json r =
     JObj [(lit ''platform'', JStr (ReplyResponse.platform r)),
           (lit ''post_text'', JStr (ReplyResponse.post_text r)),
           (lit ''generated_reply'', JStr (generated_reply r))]"

definition run_create_reply :: "env \<Rightarrow> PostData \<Rightarrow> http_response \<times> event list" where
  "run_create_reply E post_data =
     (case create_reply E post_data of
        (Inl e, evs) \<Rightarrow> (exception_response e, evs)
      | (Inr r, evs) \<Rightarrow> (JSONResponse HTTP_200_OK (reply_json r), evs))"

text \<open>
  The route \<^verbatim>\<open>POST /reply\<close>: the handler runs once the dependency
  \<^verbatim>\<open>Depends(check_services)\<close> has returned and the body has been validated. The order in
  which the framework does these two is not fixed by the repository; \<open>deps_first\<close> selects it.
\<close>

definition post_reply :: "bool \<Rightarrow> env \<Rightarrow> json \<Rightarrow> http_response \<times> event list" where
  "post_reply deps_first E body =
     (if deps_first then
        (case check_services E of
           Inl e \<Rightarrow> (exception_response e, [])
         | Inr u \<Rightarrow>
             (case validate_PostData body of
                None \<Rightarrow> (RequestValidationError, [])
              | Some post_data \<Rightarrow> run_create_reply E post_data))
      else
        (case validate_PostData body of
           None \<Rightarrow> (RequestValidationError, [])
         | Some post_data \<Rightarrow>
             (case check_services E of
                Inl e \<Rightarrow> (exception_response e, [])
              | Inr u \<Rightarrow> run_create_reply E post_data)))"

definition health_check :: "env \<Rightarrow> http_response" where
  "health_check E =
     (let db_status = (if is_db_connected E then lit ''connected'' else lit ''disconnected'');
          llm_status = (if is_llm_available E then lit ''available'' else lit ''unavailable'')
      in if db_status = lit ''connected'' \<and> llm_status = lit ''available''
         then JSONResponse HTTP_200_OK
                (JObj [(lit ''status'', JStr (lit ''ok'')),
                       (lit ''database'', JStr db_status),
                       (lit ''llm'', JStr llm_status)])
         else JSONResponse HTTP_503_SERVICE_UNAVAILABLE
                (JObj [(lit ''status'', JStr (lit ''error'')),
                       (lit ''database'', JStr db_status),
                       (lit ''llm'', JStr llm_status)]))"

subsection \<open>Example inputs\<close>

text \<open>
  Concrete environments and requests on which the theorems below are evaluated: a backend
  that answers every prompt with one given outcome, a store that accepts every insert, a
  store that fails every insert, and the request bodies of the repository's tests.
\<close>

definition example_response :: "pystr \<Rightarrow> GenerateContentResponse" where
  "example_response raw = \<lparr>parts = Inr [Part raw], text' = Inr raw\<rparr>"

definition blocked_response :: GenerateContentResponse where
  "blocked_response = \<lparr>parts = Inr [], text' = Inl (Error (lit ''no valid part''))\<rparr>"

definition accepting_collection :: AsyncIOMotorCollection where
  "accepting_collection = \<lparr>insert_one = (\<lambda>document. Inr (ObjectId (lit ''65f0c0ffee'')))\<rparr>"

definition failing_collection :: AsyncIOMotorCollection where
  "failing_collection = \<lparr>insert_one = (\<lambda>document. Inl (Error (lit ''connection reset'')))\<rparr>"

definition example_env ::
  "bool \<Rightarrow> exception + GenerateContentResponse \<Rightarrow> AsyncIOMotorCollection option \<Rightarrow>
     (nat \<Rightarrow> pystr \<Rightarrow> pystr) \<Rightarrow> env" where
  "example_env configured outcome coll render =
     \<lparr>genai_configured = configured,
      generate_content_async = (\<lambda>prompt. outcome),
      reply_collection = coll,
      utcnow = 1700000000,
      str_http_exception = render\<rparr>"

text \<open>One possible text of an \<^verbatim>\<open>HTTPException\<close> under \<^verbatim>\<open>str\<close>: its detail.\<close>

definition render_detail :: "nat \<Rightarrow> pystr \<Rightarrow> pystr" where
  "render_detail s d = d"

definition example_post :: PostData where
  "example_post =
     \<lparr>PostData.platform = lit ''Twitter'',
      post_text = lit ''Testing the new API endpoint! #testing''\<rparr>"

definition example_body :: json where
  "example_body =
     JObj [(lit ''platform'', JStr (lit ''Twitter'')),
           (lit ''post_text'', JStr (lit ''Testing the new API endpoint! #testing''))]"




section \<open>Properties\<close>

subsection \<open>String helpers\<close>

lemma startswith_single: "startswith s [q] \<longleftrightarrow> s \<noteq> [] \<and> hd s = q"
  by (cases s) (auto simp: startswith_def)

lemma endswith_single: "endswith s [q] \<longleftrightarrow> s \<noteq> [] \<and> last s = q"
proof (cases s rule: rev_cases)
  case Nil
  then show ?thesis by (simp add: endswith_def)
next
  case (snoc ys y)
  then show ?thesis by (auto simp: endswith_def)
qed


lemma slice_1_m1_single: "slice_1_m1 [q] = []"
  by (simp add: slice_1_m1_def Let_def)



lemma post_process_single:
  assumes "q = dquote \<or> q = squote" and "strip raw = [q]"
  shows "post_process raw = []"
  using assms
  by (auto simp: post_process_def Let_def startswith_single endswith_single slice_1_m1_single)

subsection \<open>The model client\<close>

lemma read_response_text:
  "parts response = Inr ps \<Longrightarrow> ps \<noteq> [] \<Longrightarrow> text' response = Inr raw \<Longrightarrow>
   read_response (Inr response) = Inr (Some (post_process raw))"
  by (simp add: read_response_def)

lemma generate_reply_text:
  assumes "genai_configured E"
    and "generate_content_async E (create_prompt plat post) = Inr response"
    and "parts response = Inr ps" and "ps \<noteq> []" and "text' response = Inr raw"
  shows "generate_reply E plat post =
         (Inr (Some (post_process raw)), [GenerateContent (create_prompt plat post)])"
  using assms by (simp add: generate_reply_def Let_def read_response_text)

lemma generate_reply_returns: "\<exists>r. fst (generate_reply E plat post) = Inr r"
  by (auto simp: generate_reply_def Let_def split: sum.splits)

lemma example_env_backend:
  "genai_configured (example_env True (Inr (example_response raw)) coll render)"
  "generate_content_async (example_env True (Inr (example_response raw)) coll render) prompt =
     Inr (example_response raw)"
  "parts (example_response raw) = Inr [Part raw]"
  "[Part raw] \<noteq> []"
  "text' (example_response raw) = Inr raw"
  by (simp_all add: example_env_def example_response_def)



text \<open>
  C10. The quote test does not ask for two characters: when the trimmed text is one
  single quote character (double or single), both \<^verbatim>\<open>startswith\<close> and
  \<^verbatim>\<open>endswith\<close> hold on that character and the reply is the empty string.
\<close>

theorem generate_reply_lone_quote_gives_empty:
  assumes "genai_configured E"
    and "generate_content_async E (create_prompt plat post) = Inr response"
    and "parts response = Inr ps" and "ps \<noteq> []" and "text' response = Inr raw"
    and "q = dquote \<or> q = squote" and "strip raw = [q]"
  shows "startswith (strip raw) [q] \<and> endswith (strip raw) [q] \<and>
         fst (generate_reply E plat post) = Inr (Some [])"
proof -
  have "fst (generate_reply E plat post) = Inr (Some (post_process raw))"
    using assms by (simp add: generate_reply_text)
  moreover have "post_process raw = []"
    using assms(6,7) by (rule post_process_single)
  ultimately show ?thesis
    using assms(7) by (simp add: startswith_single endswith_single)
qed

theorem generate_reply_lone_quote_gives_empty_witness:
  \<open>fst (generate_reply
          (example_env True (Inr (example_response (lit '' " ''))) None render_detail)
          (lit ''Twitter'') (lit ''hi'')) = Inr (Some [])\<close>
proof -
  have s: \<open>strip (lit '' " '') = [dquote]\<close>
    by (simp add: strip_def lstrip_def rstrip_def isspace_def lit_def dquote_def)
  show ?thesis
    using generate_reply_lone_quote_gives_empty
            [OF example_env_backend, where raw = \<open>lit '' " ''\<close> and q = dquote] s
    by simp
qed

lemma generate_reply_None_iff:
  "fst (generate_reply E plat post) = Inr None \<longleftrightarrow>
     \<not> genai_configured E \<or>
     (\<exists>e. generate_content_async E (create_prompt plat post) = Inl e) \<or>
     (\<exists>response. generate_content_async E (create_prompt plat post) = Inr response \<and>
        ((\<exists>e. parts response = Inl e) \<or> parts response = Inr [] \<or>
         (\<exists>e. text' response = Inl e)))"
  by (auto simp: generate_reply_def Let_def read_response_def split: sum.splits if_splits)

text \<open>
  C7. \<^verbatim>\<open>generate_reply\<close> always returns and never raises. When the client is disabled
  it returns \<^verbatim>\<open>None\<close> with no call to the backend; otherwise it calls the backend
  exactly once. Its result is \<^verbatim>\<open>None\<close> in exactly these cases: the client is
  disabled; the backend call raises; the response has no parts, or reading its parts or its
  text raises.
\<close>

theorem generate_reply_unavailable_cases:
  "(\<exists>r. fst (generate_reply E plat post) = Inr r) \<and>
   (\<not> genai_configured E \<longrightarrow> generate_reply E plat post = (Inr None, [])) \<and>
   (genai_configured E \<longrightarrow>
      snd (generate_reply E plat post) = [GenerateContent (create_prompt plat post)]) \<and>
   (fst (generate_reply E plat post) = Inr None \<longleftrightarrow>
      \<not> genai_configured E \<or>
      (\<exists>e. generate_content_async E (create_prompt plat post) = Inl e) \<or>
      (\<exists>response. generate_content_async E (create_prompt plat post) = Inr response \<and>
         ((\<exists>e. parts response = Inl e) \<or> parts response = Inr [] \<or>
          (\<exists>e. text' response = Inl e))))"
proof (intro conjI)
  show "\<exists>r. fst (generate_reply E plat post) = Inr r" by (rule generate_reply_returns)
  show "\<not> genai_configured E \<longrightarrow> generate_reply E plat post = (Inr None, [])"
    by (simp add: generate_reply_def)
  show "genai_configured E \<longrightarrow>
      snd (generate_reply E plat post) = [GenerateContent (create_prompt plat post)]"
    by (simp add: generate_reply_def Let_def)
  show "fst (generate_reply E plat post) = Inr None \<longleftrightarrow>
      \<not> genai_configured E \<or>
      (\<exists>e. generate_content_async E (create_prompt plat post) = Inl e) \<or>
      (\<exists>response. generate_content_async E (create_prompt plat post) = Inr response \<and>
         ((\<exists>e. parts response = Inl e) \<or> parts response = Inr [] \<or>
          (\<exists>e. text' response = Inl e)))"
    by (rule generate_reply_None_iff)
qed

theorem generate_reply_unavailable_cases_witness:
  "generate_reply (example_env False (Inr (example_response (lit ''hello''))) None render_detail)
     (lit ''Twitter'') (lit ''hi'') = (Inr None, []) \<and>
   generate_reply (example_env True (Inl (Error (lit ''timeout''))) None render_detail)
     (lit ''Twitter'') (lit ''hi'') =
     (Inr None, [GenerateContent (create_prompt (lit ''Twitter'') (lit ''hi''))]) \<and>
   generate_reply (example_env True (Inr blocked_response) None render_detail)
     (lit ''Twitter'') (lit ''hi'') =
     (Inr None, [GenerateContent (create_prompt (lit ''Twitter'') (lit ''hi''))])"
proof -
  let ?p = "lit ''Twitter''" and ?t = "lit ''hi''"
  let ?E1 = "example_env False (Inr (example_response (lit ''hello''))) None render_detail"
  let ?E2 = "example_env True (Inl (Error (lit ''timeout''))) None render_detail"
  let ?E3 = "example_env True (Inr blocked_response) None render_detail"
  have 1: "generate_reply ?E1 ?p ?t = (Inr None, [])"
    using generate_reply_unavailable_cases [of ?E1 ?p ?t] by (simp add: example_env_def)
  have 2: "generate_reply ?E2 ?p ?t = (Inr None, [GenerateContent (create_prompt ?p ?t)])"
    using generate_reply_unavailable_cases [of ?E2 ?p ?t] by (simp add: example_env_def prod_eq_iff)
  have 3: "generate_reply ?E3 ?p ?t = (Inr None, [GenerateContent (create_prompt ?p ?t)])"
    using generate_reply_unavailable_cases [of ?E3 ?p ?t] by (simp add: example_env_def blocked_response_def prod_eq_iff)
  show ?thesis using 1 2 3 by simp
qed

subsection \<open>The persistence client\<close>

lemma model_dump_no_id:
  "reply_id r = None \<Longrightarrow>
   del_none_id (model_dump r) =
     [(lit ''platform'', DStr (ReplyResponse.platform r)),
      (lit ''post_text'', DStr (ReplyResponse.post_text r)),
      (lit ''generated_reply'', DStr (generated_reply r)),
      (lit ''timestamp'', DDatetime (timestamp r))]"
  by (simp add: model_dump_def del_none_id_def lit_def)

lemma model_dump_with_id:
  "reply_id r = Some i \<Longrightarrow>
   del_none_id (model_dump r) =
     [(lit ''platform'', DStr (ReplyResponse.platform r)),
      (lit ''post_text'', DStr (ReplyResponse.post_text r)),
      (lit ''generated_reply'', DStr (generated_reply r)),
      (lit ''timestamp'', DDatetime (timestamp r)),
      (lit ''_id'', DStr i)]"
  by (simp add: model_dump_def del_none_id_def lit_def)

lemma save_reply_returns: "\<exists>r. fst (save_reply E reply_data) = Inr r"
  by (auto simp: save_reply_def Let_def split: option.splits sum.splits)

text \<open>
  C8. \<^verbatim>\<open>save_reply\<close> always returns and never raises. Disconnected, it returns
  \<^verbatim>\<open>None\<close> and attempts no insert. Connected, it performs exactly one insert, of the
  record's four fields (and of \<^verbatim>\<open>_id\<close> only when the identifier is set), and returns
  the assigned identifier as a string when the insert succeeds and \<^verbatim>\<open>None\<close> when the
  insert raises.
\<close>

theorem save_reply_best_effort:
  "(\<exists>res. fst (save_reply E r) = Inr res) \<and>
   (reply_collection E = None \<longrightarrow> save_reply E r = (Inr None, [])) \<and>
   (\<forall>coll. reply_collection E = Some coll \<longrightarrow>
      (\<exists>document.
         snd (save_reply E r) = [InsertOne document] \<and>
         (reply_id r = None \<longrightarrow>
            document =
              [(lit ''platform'', DStr (ReplyResponse.platform r)),
               (lit ''post_text'', DStr (ReplyResponse.post_text r)),
               (lit ''generated_reply'', DStr (generated_reply r)),
               (lit ''timestamp'', DDatetime (timestamp r))]) \<and>
         (\<forall>i. reply_id r = Some i \<longrightarrow>
            document =
              [(lit ''platform'', DStr (ReplyResponse.platform r)),
               (lit ''post_text'', DStr (ReplyResponse.post_text r)),
               (lit ''generated_reply'', DStr (generated_reply r)),
               (lit ''timestamp'', DDatetime (timestamp r)),
               (lit ''_id'', DStr i)]) \<and>
         (\<forall>oid. insert_one coll document = Inr oid \<longrightarrow>
            fst (save_reply E r) = Inr (Some (str_object_id oid))) \<and>
         (\<forall>e. insert_one coll document = Inl e \<longrightarrow> fst (save_reply E r) = Inr None)))"
proof (intro conjI allI impI)
  show "\<exists>res. fst (save_reply E r) = Inr res" by (rule save_reply_returns)
  show "save_reply E r = (Inr None, [])" if "reply_collection E = None"
    using that by (simp add: save_reply_def)
  show "\<exists>document.
         snd (save_reply E r) = [InsertOne document] \<and>
         (reply_id r = None \<longrightarrow>
            document =
              [(lit ''platform'', DStr (ReplyResponse.platform r)),
               (lit ''post_text'', DStr (ReplyResponse.post_text r)),
               (lit ''generated_reply'', DStr (generated_reply r)),
               (lit ''timestamp'', DDatetime (timestamp r))]) \<and>
         (\<forall>i. reply_id r = Some i \<longrightarrow>
            document =
              [(lit ''platform'', DStr (ReplyResponse.platform r)),
               (lit ''post_text'', DStr (ReplyResponse.post_text r)),
               (lit ''generated_reply'', DStr (generated_reply r)),
               (lit ''timestamp'', DDatetime (timestamp r)),
               (lit ''_id'', DStr i)]) \<and>
         (\<forall>oid. insert_one coll document = Inr oid \<longrightarrow>
            fst (save_reply E r) = Inr (Some (str_object_id oid))) \<and>
         (\<forall>e. insert_one coll document = Inl e \<longrightarrow> fst (save_reply E r) = Inr None)"
    if c: "reply_collection E = Some coll" for coll
  proof (intro exI [of _ "del_none_id (model_dump r)"] conjI allI impI)
    show "snd (save_reply E r) = [InsertOne (del_none_id (model_dump r))]"
      using c by (simp add: save_reply_def Let_def)
  qed (use c in \<open>simp_all add: save_reply_def Let_def model_dump_no_id model_dump_with_id\<close>)
qed

theorem save_reply_best_effort_witness:
  "save_reply (example_env True (Inl (Error [])) None render_detail)
     \<lparr>ReplyResponse.platform = lit ''Twitter'', post_text = lit ''hi'',
      generated_reply = lit ''hello'', timestamp = 7, reply_id = None\<rparr> = (Inr None, []) \<and>
   save_reply (example_env True (Inl (Error [])) (Some accepting_collection) render_detail)
     \<lparr>ReplyResponse.platform = lit ''Twitter'', post_text = lit ''hi'',
      generated_reply = lit ''hello'', timestamp = 7, reply_id = None\<rparr> =
     (Inr (Some (lit ''65f0c0ffee'')),
      [InsertOne [(lit ''platform'', DStr (lit ''Twitter'')),
                  (lit ''post_text'', DStr (lit ''hi'')),
                  (lit ''generated_reply'', DStr (lit ''hello'')),
                  (lit ''timestamp'', DDatetime 7)]]) \<and>
   fst (save_reply (example_env True (Inl (Error [])) (Some failing_collection) render_detail)
     \<lparr>ReplyResponse.platform = lit ''Twitter'', post_text = lit ''hi'',
      generated_reply = lit ''hello'', timestamp = 7, reply_id = None\<rparr>) = Inr None"
proof -
  let ?r = "\<lparr>ReplyResponse.platform = lit ''Twitter'', post_text = lit ''hi'',
      generated_reply = lit ''hello'', timestamp = 7, reply_id = None\<rparr>"
  let ?E = "\<lambda>c. example_env True (Inl (Error [])) c render_detail"
  have 1: "save_reply (?E None) ?r = (Inr None, [])"
    using save_reply_best_effort [of "?E None" ?r] by (simp add: example_env_def)
  have 2: "save_reply (?E (Some accepting_collection)) ?r =
     (Inr (Some (lit ''65f0c0ffee'')),
      [InsertOne [(lit ''platform'', DStr (lit ''Twitter'')),
                  (lit ''post_text'', DStr (lit ''hi'')),
                  (lit ''generated_reply'', DStr (lit ''hello'')),
                  (lit ''timestamp'', DDatetime 7)]])"
    using save_reply_best_effort [of "?E (Some accepting_collection)" ?r]
    by (auto simp: example_env_def accepting_collection_def prod_eq_iff)
  have 3: "fst (save_reply (?E (Some failing_collection)) ?r) = Inr None"
    using save_reply_best_effort [of "?E (Some failing_collection)" ?r]
    by (auto simp: example_env_def failing_collection_def)
  show ?thesis using 1 2 3 by simp
qed

subsection \<open>The endpoints\<close>

text \<open>
  C9. \<^verbatim>\<open>GET /health\<close> answers 200 with
  \<^verbatim>\<open>{status: ok, database: connected, llm: available}\<close> when the store is connected and
  the model client is available, and otherwise 503 with status \<^verbatim>\<open>error\<close> and the
  actual state of each of the two; so the status is 200 if and only if both are healthy.
\<close>

theorem health_check_status:
  "health_check E =
     (if is_db_connected E \<and> is_llm_available E
      then JSONResponse 200
             (JObj [(lit ''status'', JStr (lit ''ok'')),
                    (lit ''database'', JStr (lit ''connected'')),
                    (lit ''llm'', JStr (lit ''available''))])
      else JSONResponse 503
             (JObj [(lit ''status'', JStr (lit ''error'')),
                    (lit ''database'',
                       JStr (if is_db_connected E then lit ''connected'' else lit ''disconnected'')),
                    (lit ''llm'',
                       JStr (if is_llm_available E then lit ''available'' else lit ''unavailable''))])) \<and>
   (status_code (health_check E) = 200 \<longleftrightarrow> is_db_connected E \<and> is_llm_available E)"
  by (simp add: health_check_def Let_def HTTP_200_OK_def HTTP_503_SERVICE_UNAVAILABLE_def lit_def)

theorem health_check_status_witness:
  "health_check (example_env True (Inl (Error [])) (Some accepting_collection) render_detail) =
     JSONResponse 200
       (JObj [(lit ''status'', JStr (lit ''ok'')),
              (lit ''database'', JStr (lit ''connected'')),
              (lit ''llm'', JStr (lit ''available''))]) \<and>
   health_check (example_env True (Inl (Error [])) None render_detail) =
     JSONResponse 503
       (JObj [(lit ''status'', JStr (lit ''error'')),
              (lit ''database'', JStr (lit ''disconnected'')),
              (lit ''llm'', JStr (lit ''available''))])"
  using health_check_status [of "example_env True (Inl (Error [])) (Some accepting_collection) render_detail"]
        health_check_status [of "example_env True (Inl (Error [])) None render_detail"]
  by (simp add: is_db_connected_def is_llm_available_def example_env_def)

text \<open>
  C5. When the model client is unavailable, a \<^verbatim>\<open>POST /reply\<close> with a well-formed body
  is answered 503 with the detail text of \<^verbatim>\<open>check_services\<close>, and no call to the
  backend and no insert takes place, whichever of dependency and body validation the
  framework evaluates first.
\<close>

theorem post_reply_unavailable_503:
  assumes "\<not> is_llm_available E" and "validate_PostData body = Some post_data"
  shows "post_reply deps_first E body =
         (JSONResponse 503
            (JObj [(lit ''detail'', JStr (lit ''LLM service is not configured or unavailable.''))]),
          [])"
  using assms
  by (simp add: post_reply_def check_services_def HTTP_503_SERVICE_UNAVAILABLE_def)

lemma validate_example_body: "validate_PostData example_body = Some example_post"
  by (simp add: validate_PostData_def example_body_def example_post_def lit_def)

theorem post_reply_unavailable_503_witness:
  "post_reply True
     (example_env False (Inr (example_response (lit ''hello''))) (Some accepting_collection)
        render_detail)
     example_body =
   (JSONResponse 503
      (JObj [(lit ''detail'', JStr (lit ''LLM service is not configured or unavailable.''))]),
    [])"
  by (rule post_reply_unavailable_503 [OF _ validate_example_body]) (simp add: is_llm_available_def example_env_def)

lemma generate_reply_env_collection:
  "generate_reply (E\<lparr>reply_collection := c\<rparr>) plat post = generate_reply E plat post"
  by (simp add: generate_reply_def)

lemma create_reply_success:
  assumes "fst (generate_reply E (PostData.platform post_data) (PostData.post_text post_data)) =
           Inr (Some t)"
  shows "fst (create_reply E post_data) =
         Inr \<lparr>ReplyResponse.platform = PostData.platform post_data,
              post_text = PostData.post_text post_data,
              generated_reply = t\<rparr>"
proof -
  obtain ev where g: "generate_reply E (PostData.platform post_data) (PostData.post_text post_data)
                      = (Inr (Some t), ev)"
    using assms by (cases "generate_reply E (PostData.platform post_data) (PostData.post_text post_data)") simp
  let ?r = "\<lparr>ReplyResponse.platform = PostData.platform post_data,
                    post_text = PostData.post_text post_data,
                    generated_reply = t,
                    timestamp = utcnow E,
                    reply_id = None\<rparr>"
  obtain res ev2 where s: "save_reply E ?r = (Inr res, ev2)"
    using save_reply_returns [of E ?r] by (cases "save_reply E ?r") auto
  show ?thesis
    by (simp add: create_reply_def create_reply_with_def g s Let_def)
qed

lemma generate_success_configured:
  "fst (generate_reply E plat post) = Inr (Some t) \<Longrightarrow> genai_configured E"
  by (auto simp: generate_reply_def split: if_splits)

lemma post_reply_success:
  assumes "validate_PostData body = Some post_data"
    and "fst (generate_reply E (PostData.platform post_data) (PostData.post_text post_data)) =
           Inr (Some t)"
  shows "fst (post_reply deps_first E body) =
         JSONResponse 200
           (JObj [(lit ''platform'', JStr (PostData.platform post_data)),
                  (lit ''post_text'', JStr (PostData.post_text post_data)),
                  (lit ''generated_reply'', JStr t)])"
proof -
  have c: "genai_configured E" using assms(2) by (rule generate_success_configured)
  obtain evs where r: "create_reply E post_data =
      (Inr \<lparr>ReplyResponse.platform = PostData.platform post_data,
              post_text = PostData.post_text post_data,
              generated_reply = t\<rparr>, evs)"
    using create_reply_success [OF assms(2)] by (cases "create_reply E post_data") simp
  show ?thesis
    using c assms(1)
    by (simp add: post_reply_def check_services_def is_llm_available_def run_create_reply_def r
          reply_json_def HTTP_200_OK_def)
qed

text \<open>
  C6. For a request whose body validates and whose generation step yields a reply, the
  response of \<^verbatim>\<open>POST /reply\<close> is the same in any two runs that differ only in the
  persistence client (disconnected, or connected to a store with any insert behaviour):
  it is 200 with the body \<^verbatim>\<open>{platform, post_text, generated_reply}\<close>.
\<close>

theorem post_reply_response_independent_of_store:
  assumes "validate_PostData body = Some post_data"
    and "fst (generate_reply E (PostData.platform post_data) (PostData.post_text post_data)) =
           Inr (Some t)"
  shows "fst (post_reply deps_first (E\<lparr>reply_collection := c1\<rparr>) body) =
         fst (post_reply deps_first (E\<lparr>reply_collection := c2\<rparr>) body) \<and>
         fst (post_reply deps_first (E\<lparr>reply_collection := c1\<rparr>) body) =
         JSONResponse 200
           (JObj [(lit ''platform'', JStr (PostData.platform post_data)),
                  (lit ''post_text'', JStr (PostData.post_text post_data)),
                  (lit ''generated_reply'', JStr t)])"
proof -
  have "fst (post_reply deps_first (E\<lparr>reply_collection := c\<rparr>) body) =
         JSONResponse 200
           (JObj [(lit ''platform'', JStr (PostData.platform post_data)),
                  (lit ''post_text'', JStr (PostData.post_text post_data)),
                  (lit ''generated_reply'', JStr t)])" for c
    using assms by (intro post_reply_success) (simp_all add: generate_reply_env_collection)
  then show ?thesis by simp
qed

lemma post_process_hello: "post_process (lit ''hello'') = lit ''hello''"
  by (simp add: post_process_def strip_def lstrip_def rstrip_def isspace_def lit_def
        startswith_def endswith_def dquote_def squote_def)

lemma generate_reply_example_hello:
  "fst (generate_reply (example_env True (Inr (example_response (lit ''hello''))) coll render)
          plat post) = Inr (Some (lit ''hello''))"
  by (simp add: generate_reply_text [OF example_env_backend] post_process_hello)

theorem post_reply_response_independent_of_store_witness:
  "fst (post_reply True
          (example_env True (Inr (example_response (lit ''hello''))) None render_detail)
          example_body) =
   fst (post_reply True
          (example_env True (Inr (example_response (lit ''hello''))) (Some failing_collection)
             render_detail)
          example_body) \<and>
   fst (post_reply True
          (example_env True (Inr (example_response (lit ''hello''))) (Some accepting_collection)
             render_detail)
          example_body) =
   JSONResponse 200
     (JObj [(lit ''platform'', JStr (lit ''Twitter'')),
            (lit ''post_text'', JStr (lit ''Testing the new API endpoint! #testing'')),
            (lit ''generated_reply'', JStr (lit ''hello''))])"
proof -
  let ?E = "example_env True (Inr (example_response (lit ''hello''))) None render_detail"
  have u: "?E\<lparr>reply_collection := c\<rparr> =
           example_env True (Inr (example_response (lit ''hello''))) c render_detail" for c
    by (simp add: example_env_def)
  have p: "PostData.platform example_post = lit ''Twitter''"
          "PostData.post_text example_post = lit ''Testing the new API endpoint! #testing''"
    by (simp_all add: example_post_def)
  have g: "fst (generate_reply ?E (PostData.platform example_post)
                   (PostData.post_text example_post)) = Inr (Some (lit ''hello''))"
    by (rule generate_reply_example_hello)
  show ?thesis
    using post_reply_response_independent_of_store [OF validate_example_body g,
              where deps_first = True and ?c1.0 = None and ?c2.0 = "Some failing_collection"]
          post_reply_response_independent_of_store [OF validate_example_body g,
              where deps_first = True and ?c1.0 = "Some accepting_collection" and ?c2.0 = None]
    unfolding u p by blast
qed

lemma post_process_two_quotes: \<open>post_process (lit ''""'') = []\<close>
  by (simp add: post_process_def strip_def lstrip_def rstrip_def isspace_def lit_def
        startswith_def endswith_def dquote_def squote_def slice_1_m1_def)

text \<open>
  C1, at a failing input. The backend answers the prompt with parts and the text
  \<^verbatim>\<open>""\<close> (two double quotes); the store is connected. \<^verbatim>\<open>generate_reply\<close> returns
  the empty string, which is not \<^verbatim>\<open>None\<close>, so \<^verbatim>\<open>create_reply\<close> builds a
  \<^verbatim>\<open>StoredReply\<close> whose \<^verbatim>\<open>generated_reply\<close> is empty, hands it to
  \<^verbatim>\<open>save_reply\<close>, which inserts it, and returns it to the caller.
\<close>

theorem create_reply_stores_empty_reply:
  \<open>create_reply
     (example_env True (Inr (example_response (lit ''""''))) (Some accepting_collection)
        render_detail)
     example_post =
   (Inr \<lparr>ReplyResponse.platform = lit ''Twitter'',
          post_text = lit ''Testing the new API endpoint! #testing'',
          generated_reply = []\<rparr>,
    [GenerateContent
       (create_prompt (lit ''Twitter'') (lit ''Testing the new API endpoint! #testing'')),
     InsertOne
       [(lit ''platform'', DStr (lit ''Twitter'')),
        (lit ''post_text'', DStr (lit ''Testing the new API endpoint! #testing'')),
        (lit ''generated_reply'', DStr []),
        (lit ''timestamp'', DDatetime 1700000000)]])\<close>
proof -
  let ?E = \<open>example_env True (Inr (example_response (lit ''""''))) (Some accepting_collection)
        render_detail\<close>
  have g: \<open>generate_reply ?E (lit ''Twitter'') (lit ''Testing the new API endpoint! #testing'') =
     (Inr (Some []), [GenerateContent
       (create_prompt (lit ''Twitter'') (lit ''Testing the new API endpoint! #testing''))])\<close>
    by (simp add: generate_reply_text [OF example_env_backend] post_process_two_quotes)
  have c: "is_db_connected ?E" "utcnow ?E = 1700000000"
    "reply_collection ?E = Some accepting_collection"
    by (simp_all add: is_db_connected_def example_env_def)
  have s: "save_reply ?E
      \<lparr>ReplyResponse.platform = lit ''Twitter'',
        post_text = lit ''Testing the new API endpoint! #testing'',
        generated_reply = [], timestamp = 1700000000, reply_id = None\<rparr> =
     (Inr (Some (lit ''65f0c0ffee'')),
      [InsertOne
       [(lit ''platform'', DStr (lit ''Twitter'')),
        (lit ''post_text'', DStr (lit ''Testing the new API endpoint! #testing'')),
        (lit ''generated_reply'', DStr []),
        (lit ''timestamp'', DDatetime 1700000000)]])"
    by (simp add: save_reply_def example_env_def Let_def model_dump_no_id accepting_collection_def)
  show ?thesis
    by (simp add: create_reply_def create_reply_with_def example_post_def g c s)
qed


lemma create_reply_with_raise:
  assumes "llm (PostData.platform post_data) (PostData.post_text post_data) = (Inl e, ev)"
  shows "create_reply_with llm E post_data =
         (Inl (HTTPException 500
                 (lit ''An unexpected error occurred during reply generation: '' @
                  str_exception E e)), ev)"
  using assms by (simp add: create_reply_with_def HTTP_500_INTERNAL_SERVER_ERROR_def)

lemma create_reply_with_None:
  assumes "llm (PostData.platform post_data) (PostData.post_text post_data) = (Inr None, ev)"
  shows "create_reply_with llm E post_data =
         (Inl (HTTPException 500
                 (lit ''An unexpected error occurred during reply generation: '' @
                  str_http_exception E 500
                    (lit ''Failed to generate reply using the language model.''))), ev)"
  using assms by (simp add: create_reply_with_def HTTP_500_INTERNAL_SERVER_ERROR_def)

text \<open>
  C2, at a failing input. The backend answers with no parts, so \<^verbatim>\<open>generate_reply\<close>
  returns \<^verbatim>\<open>None\<close>. The \<^verbatim>\<open>HTTPException\<close> with the detail
  \<^verbatim>\<open>Failed to generate reply using the language model.\<close> is raised inside the
  \<^verbatim>\<open>try\<close> block and caught by its own \<^verbatim>\<open>except Exception\<close>: the caller gets
  status 500 with the detail \<^verbatim>\<open>An unexpected error occurred during reply generation: \<close>
  followed by the text of that exception, whatever that text is; no insert is attempted.
\<close>

theorem create_reply_none_detail_is_wrapped:
  \<open>\<forall>render.
     create_reply
       (example_env True (Inr blocked_response) (Some accepting_collection) render)
       example_post =
     (Inl (HTTPException 500
            (lit ''An unexpected error occurred during reply generation: '' @
             render 500 (lit ''Failed to generate reply using the language model.''))),
      [GenerateContent
         (create_prompt (lit ''Twitter'') (lit ''Testing the new API endpoint! #testing''))]) \<and>
     lit ''An unexpected error occurred during reply generation: '' @
       render 500 (lit ''Failed to generate reply using the language model.'') \<noteq>
     lit ''Failed to generate reply using the language model.''\<close>
proof (intro allI conjI)
  fix render
  let ?E = \<open>example_env True (Inr blocked_response) (Some accepting_collection) render\<close>
  have g: \<open>generate_reply ?E (lit ''Twitter'') (lit ''Testing the new API endpoint! #testing'') =
     (Inr None, [GenerateContent
       (create_prompt (lit ''Twitter'') (lit ''Testing the new API endpoint! #testing''))])\<close>
    by (simp add: generate_reply_def example_env_def blocked_response_def read_response_def Let_def)
  have r: "str_http_exception ?E = render" by (simp add: example_env_def)
  show \<open>create_reply ?E example_post =
     (Inl (HTTPException 500
            (lit ''An unexpected error occurred during reply generation: '' @
             render 500 (lit ''Failed to generate reply using the language model.''))),
      [GenerateContent
         (create_prompt (lit ''Twitter'') (lit ''Testing the new API endpoint! #testing''))])\<close>
    by (simp add: create_reply_def create_reply_with_def example_post_def g r
          HTTP_500_INTERNAL_SERVER_ERROR_def)
  show \<open>lit ''An unexpected error occurred during reply generation: '' @
       render 500 (lit ''Failed to generate reply using the language model.'') \<noteq>
     lit ''Failed to generate reply using the language model.''\<close>
    by (simp add: lit_def)
qed










end
